theory Spec2Isabelle
  imports Main "HOL-Library.Word"
begin

section \<open>Go values shared by the packages\<close>

text \<open>
  A Go \<open>error\<close> is either a plain message (\<open>errors.New\<close>, or \<open>fmt.Errorf\<close> without
  \<open>%w\<close>) or a message wrapping another error (\<open>fmt.Errorf\<close> with one \<open>%w\<close>).
  A \<open>nil\<close> error is \<open>None\<close> of \<open>go_error option\<close>.
\<close>

datatype go_error = ErrorString string | WrapError string go_error

fun Error :: "go_error \<Rightarrow> string" where
  "Error (ErrorString msg) = msg"
| "Error (WrapError msg inner) = msg"

fun errors_Is :: "go_error \<Rightarrow> go_error \<Rightarrow> bool" where
  "errors_Is (ErrorString msg) target = (ErrorString msg = target)"
| "errors_Is (WrapError msg inner) target =
     (WrapError msg inner = target \<or> errors_Is inner target)"

text \<open>A call either returns its results or panics (nil pointer dereference).\<close>

datatype 'a outcome = Returns 'a | Panics

text \<open>\<open>strings.Join(elems, sep)\<close>.\<close>

fun strings_Join :: "string list \<Rightarrow> string \<Rightarrow> string" where
  "strings_Join [] sep = []"
| "strings_Join [x] sep = x"
| "strings_Join (x # y # ys) sep = x @ sep @ strings_Join (y # ys) sep"

text \<open>The verb \<open>%v\<close> of package fmt on a \<open>[]string\<close>: the elements, separated by one
  space, between square brackets.\<close>

definition fmt_v :: "string list \<Rightarrow> string" where
  "fmt_v xs = ''['' @ strings_Join xs '' '' @ '']''"

text \<open>
  \<open>strings.Split(s, sep)\<close> for a non-empty separator: the pieces of \<open>s\<close> between the
  occurrences of \<open>sep\<close>, found from the left; a string without the separator is its own
  single piece, so the empty string gives one empty piece. (With an empty separator Go
  cuts after every UTF-8 sequence; the program only ever splits at one space, and the
  model cuts after every byte there.)
\<close>

function split_from :: "string \<Rightarrow> string \<Rightarrow> string \<Rightarrow> string list" where
  "split_from sep acc [] = [rev acc]"
| "split_from sep acc (c # cs) =
     (if sep \<noteq> [] \<and> take (length sep) (c # cs) = sep
      then rev acc # split_from sep [] (drop (length sep) (c # cs))
      else split_from sep (c # acc) cs)"
  by pat_completeness auto
termination
  by (relation "measure (\<lambda>(sep, acc, s). length s)") (auto simp: neq_Nil_conv)

definition strings_Split :: "string \<Rightarrow> string \<Rightarrow> string list" where
  "strings_Split s sep = (if sep = [] then map (\<lambda>c. [c]) s else split_from sep [] s)"

section \<open>Package main: the scopes announced by the server\<close>

definition systemdScopes :: "string list" where
  "systemdScopes = [''mcp:read'', ''mcp:read'']"

section \<open>Package remoteauth: the bearer-token verifier\<close>

definition Audience :: string where
  "Audience = ''systemd-mcp-server''"

definition ScopesSupported :: "string list" where
  "ScopesSupported = [''mcp:read'', ''mcp:write'']"

text \<open>
  A decoded JSON value, as \<open>encoding/json\<close> stores it in an \<open>interface{}\<close>. Numbers are
  whole (the numeric claims of a token are dates in seconds).
\<close>

datatype json = JNull | JBool bool | JNumber int | JString string
  | JArray "json list" | JObject "(string \<times> json) list"

text \<open>\<open>jwt.MapClaims\<close> is \<open>map[string]interface{}\<close>; a nil map reads like the empty one.\<close>

type_synonym MapClaims = "string \<rightharpoonup> json"

text \<open>
  The token handed to the key-resolution function: its \<open>alg\<close> header, the claims map
  after the payload was decoded into it, and the keys under which its signature verifies.
\<close>

type_synonym pubkey = string

record jwt_token =
  alg :: string
  decoded_claims :: MapClaims
  signature_ok :: "pubkey \<Rightarrow> bool"

type_synonym Keyfunc = "jwt_token \<Rightarrow> go_error + pubkey"

record Oauth2Auth =
  KeyFunc :: Keyfunc
  JwksUri :: string
  claims :: MapClaims
  scopes :: "string list"

text \<open>\<open>auth.TokenInfo\<close> of the MCP SDK, with the two fields the verifier fills; a time is
  in seconds.\<close>

record TokenInfo =
  Scopes :: "string list"
  Expiration :: int

text \<open>\<open>auth.ErrInvalidToken\<close> of the MCP SDK.\<close>

definition ErrInvalidToken :: go_error where
  "ErrInvalidToken = ErrorString ''invalid token''"

subsection \<open>The token library, as the verifier calls it\<close>

text \<open>
  \<open>VerifyJWT\<close> calls two functions of the package \<open>golang-jwt/jwt/v5\<close>, which is not part
  of the program: \<open>jwt.ParseWithClaims\<close>, with the options \<open>WithAudience\<close> and
  \<open>WithValidMethods\<close>, and \<open>MapClaims.GetExpirationTime\<close>. The verifier is written over
  any pair of such functions. The parser decodes the payload into the claims map it is
  given, so its result carries that map as it leaves it: \<open>ParseError err m\<close> stands for
  \<open>(token, err)\<close> with \<open>err \<noteq> nil\<close>, and \<open>Parsed valid m\<close> for \<open>(token, nil)\<close> with
  \<open>token.Valid = valid\<close>. \<open>GetExpirationTime\<close> returns \<open>(*NumericDate, error)\<close>, where
  \<open>None\<close> in the first place is the nil pointer.
\<close>

record parser_options =
  expected_audience :: string
  valid_methods :: "string list"

datatype parse_result = ParseError go_error MapClaims | Parsed bool MapClaims

record jwt_library =
  ParseWithClaims :: "parser_options \<Rightarrow> Keyfunc \<Rightarrow> string \<Rightarrow> MapClaims \<Rightarrow> parse_result"
  GetExpirationTime :: "MapClaims \<Rightarrow> int option \<times> go_error option"

definition SigningMethodRS256_Name :: string where
  "SigningMethodRS256_Name = ''RS256''"

text \<open>
  \<open>Oauth2Auth.VerifyJWT\<close>. The updated verifier is returned with the result. The scopes
  are stored before the \<open>TokenInfo\<close> is built, and building it reads \<open>expireTime.Time\<close>
  through the pointer, which panics when the pointer is nil.
\<close>

definition VerifyJWT ::
  "jwt_library \<Rightarrow> Oauth2Auth \<Rightarrow> string \<Rightarrow> Oauth2Auth \<times> (go_error + TokenInfo) outcome" where
  "VerifyJWT L a tokenString =
     (case ParseWithClaims L
             \<lparr>expected_audience = Audience, valid_methods = [SigningMethodRS256_Name]\<rparr>
             (KeyFunc a) tokenString (claims a) of
        ParseError err m \<Rightarrow>
          (a\<lparr>claims := m\<rparr>,
           Returns (Inl (WrapError (Error ErrInvalidToken @ '': '' @ Error err) err)))
      | Parsed valid m \<Rightarrow>
          if valid then
            (case GetExpirationTime L m of
               (expireTime, Some err) \<Rightarrow>
                 (a\<lparr>claims := m\<rparr>,
                  Returns (Inl (WrapError (Error ErrInvalidToken @ '': '' @ Error err) err)))
             | (expireTime, None) \<Rightarrow>
                 (case m ''scope'' of
                    Some (JString sc) \<Rightarrow>
                      (case expireTime of
                         None \<Rightarrow>
                           (a\<lparr>claims := m, scopes := strings_Split sc '' ''\<rparr>, Panics)
                       | Some t \<Rightarrow>
                           (a\<lparr>claims := m, scopes := strings_Split sc '' ''\<rparr>,
                            Returns (Inr \<lparr>Scopes = strings_Split sc '' '', Expiration = t\<rparr>)))
                  | _ \<Rightarrow>
                      (a\<lparr>claims := m\<rparr>,
                       Returns (Inl (WrapError
                         (''unable to type assert scopes: '' @ Error ErrInvalidToken)
                         ErrInvalidToken)))))
          else (a\<lparr>claims := m, scopes := []\<rparr>, Returns (Inl ErrInvalidToken)))"

text \<open>\<open>Oauth2Auth.IsWriteAuthorized\<close> and \<open>Oauth2Auth.IsReadAuthorized\<close>;
  \<open>slices.Contains\<close> is membership.\<close>

definition Oauth2Auth_IsWriteAuthorized :: "Oauth2Auth \<Rightarrow> bool \<times> go_error option" where
  "Oauth2Auth_IsWriteAuthorized a =
     (if ''mcp:write'' \<in> set (scopes a) then (True, None)
      else (False, Some (ErrorString (''mcp:write not in scopes: '' @ fmt_v (scopes a)))))"

definition Oauth2Auth_IsReadAuthorized :: "Oauth2Auth \<Rightarrow> bool \<times> go_error option" where
  "Oauth2Auth_IsReadAuthorized a =
     (if ''mcp:read'' \<in> set (scopes a) then (True, None)
      else (False, Some (ErrorString (''mcp:read not in scopes: '' @ fmt_v (scopes a)))))"

subsection \<open>A reference model of the token library\<close>

text \<open>
  The checks of \<open>jwt.ParseWithClaims\<close> in the library's order: the compact serialization
  is decoded (the payload into the caller's claims map), the \<open>alg\<close> header must be one of
  the valid methods, the key function must resolve a key, the signature must verify under
  it, and the registered claims \<open>exp\<close>, \<open>nbf\<close> and \<open>aud\<close> must validate at the current
  time. Decoding the text, the clock and the error values the library builds are taken as
  given: \<open>decode\<close>, \<open>now\<close> and \<open>failure\<close>.
\<close>

datatype jwt_failure = TokenMalformed | SigningMethodInvalid string | KeyfuncFailed go_error
  | SignatureInvalid | ClaimsInvalid | InvalidType string

datatype decoded = MalformedToken MapClaims | DecodedToken jwt_token

definition parseNumericDate ::
  "(jwt_failure \<Rightarrow> go_error) \<Rightarrow> string \<Rightarrow> MapClaims \<Rightarrow> int option \<times> go_error option" where
  "parseNumericDate failure key m =
     (case m key of
        None \<Rightarrow> (None, None)
      | Some (JNumber n) \<Rightarrow> if n = 0 then (None, None) else (Some n, None)
      | Some _ \<Rightarrow> (None, Some (failure (InvalidType key))))"

fun strings_of :: "json list \<Rightarrow> string list option" where
  "strings_of [] = Some []"
| "strings_of (JString s # vs) =
     (case strings_of vs of None \<Rightarrow> None | Some ss \<Rightarrow> Some (s # ss))"
| "strings_of (v # vs) = None"

definition parseClaimsString :: "string \<Rightarrow> MapClaims \<Rightarrow> string list option" where
  "parseClaimsString key m =
     (case m key of
        Some (JString s) \<Rightarrow> Some [s]
      | Some (JArray vs) \<Rightarrow> strings_of vs
      | _ \<Rightarrow> Some [])"

definition verifyAudience :: "string \<Rightarrow> MapClaims \<Rightarrow> bool" where
  "verifyAudience cmp m =
     (case parseClaimsString ''aud'' m of None \<Rightarrow> False | Some aud \<Rightarrow> cmp \<in> set aud)"

definition verifyExpiresAt :: "(jwt_failure \<Rightarrow> go_error) \<Rightarrow> int \<Rightarrow> MapClaims \<Rightarrow> bool" where
  "verifyExpiresAt failure now m =
     (case parseNumericDate failure ''exp'' m of
        (_, Some err) \<Rightarrow> False
      | (None, None) \<Rightarrow> True
      | (Some t, None) \<Rightarrow> now < t)"

definition verifyNotBefore :: "(jwt_failure \<Rightarrow> go_error) \<Rightarrow> int \<Rightarrow> MapClaims \<Rightarrow> bool" where
  "verifyNotBefore failure now m =
     (case parseNumericDate failure ''nbf'' m of
        (_, Some err) \<Rightarrow> False
      | (None, None) \<Rightarrow> True
      | (Some t, None) \<Rightarrow> t \<le> now)"

definition Validate ::
  "(jwt_failure \<Rightarrow> go_error) \<Rightarrow> int \<Rightarrow> parser_options \<Rightarrow> MapClaims \<Rightarrow> bool" where
  "Validate failure now opts m =
     (verifyExpiresAt failure now m \<and> verifyNotBefore failure now m \<and>
      (expected_audience opts = [] \<or> verifyAudience (expected_audience opts) m))"

definition jwt_ParseWithClaims ::
  "(string \<Rightarrow> MapClaims \<Rightarrow> decoded) \<Rightarrow> int \<Rightarrow> (jwt_failure \<Rightarrow> go_error) \<Rightarrow>
   parser_options \<Rightarrow> Keyfunc \<Rightarrow> string \<Rightarrow> MapClaims \<Rightarrow> parse_result" where
  "jwt_ParseWithClaims decode now failure opts keyFunc tokenString m =
     (case decode tokenString m of
        MalformedToken m' \<Rightarrow> ParseError (failure TokenMalformed) m'
      | DecodedToken token \<Rightarrow>
          if alg token \<notin> set (valid_methods opts)
          then ParseError (failure (SigningMethodInvalid (alg token))) (decoded_claims token)
          else
            (case keyFunc token of
               Inl err \<Rightarrow> ParseError (failure (KeyfuncFailed err)) (decoded_claims token)
             | Inr key \<Rightarrow>
                 if \<not> signature_ok token key
                 then ParseError (failure SignatureInvalid) (decoded_claims token)
                 else if \<not> Validate failure now opts (decoded_claims token)
                 then ParseError (failure ClaimsInvalid) (decoded_claims token)
                 else Parsed True (decoded_claims token)))"

definition golang_jwt ::
  "(string \<Rightarrow> MapClaims \<Rightarrow> decoded) \<Rightarrow> int \<Rightarrow> (jwt_failure \<Rightarrow> go_error) \<Rightarrow> jwt_library" where
  "golang_jwt decode now failure =
     \<lparr>ParseWithClaims = jwt_ParseWithClaims decode now failure,
      GetExpirationTime = parseNumericDate failure ''exp''\<rparr>"

subsection \<open>Discovery of the key-set address\<close>

text \<open>
  \<open>GetJwksURI\<close> reads the network through \<open>http.Get\<close> and decodes the body with
  \<open>encoding/json\<close>. The HTTP client is a parameter. Of a response the function looks at
  the status and at the first JSON value of the body: \<open>Malformed err\<close> is a body from which
  the decoder reads no JSON value (it returns \<open>err\<close>), \<open>JSONValue v\<close> one that starts with
  the JSON text of \<open>v\<close>.
\<close>

datatype body = Malformed go_error | JSONValue json

record Response =
  Status :: string
  StatusCode :: int
  Body :: body

definition StatusOK :: int where
  "StatusOK = 200"

text \<open>
  Field names match object keys up to case. Folding maps the ASCII letters to upper case
  and the two other characters that fold into ASCII, the Kelvin sign (bytes E2 84 AA) and
  the long s (bytes C5 BF), to \<open>K\<close> and \<open>S\<close>; every other byte stays.
\<close>

definition upper_ascii :: "char \<Rightarrow> char" where
  "upper_ascii c =
     (case map_of (zip ''abcdefghijklmnopqrstuvwxyz'' ''ABCDEFGHIJKLMNOPQRSTUVWXYZ'') c of
        None \<Rightarrow> c | Some u \<Rightarrow> u)"

fun foldName :: "string \<Rightarrow> string" where
  "foldName [] = []"
| "foldName (c # cs) =
     (if c = CHR 0xE2 \<and> take 2 cs = [CHR 0x84, CHR 0xAA] then CHR ''K'' # foldName (drop 2 cs)
      else if c = CHR 0xC5 \<and> take 1 cs = [CHR 0xBF] then CHR ''S'' # foldName (drop 1 cs)
      else upper_ascii c # foldName cs)"

text \<open>
  Decoding a JSON object into \<open>struct { JwksURI string `json:"jwks_uri"` }\<close>: the members
  are taken in order; a member whose key matches the field stores a string, leaves the
  field alone for \<open>null\<close>, and records a type error (the first one is kept) for any other
  value; decoding goes on after a type error. \<open>type_error v\<close> is the
  \<open>UnmarshalTypeError\<close> the package builds for the value \<open>v\<close>.
\<close>

fun assign_members ::
  "(json \<Rightarrow> go_error) \<Rightarrow> (string \<times> json) list \<Rightarrow> string \<times> go_error option \<Rightarrow>
   string \<times> go_error option" where
  "assign_members type_error [] st = st"
| "assign_members type_error ((k, v) # kvs) (field, saved) =
     (if foldName k = foldName ''jwks_uri'' then
        (case v of
           JString s \<Rightarrow> assign_members type_error kvs (s, saved)
         | JNull \<Rightarrow> assign_members type_error kvs (field, saved)
         | _ \<Rightarrow> assign_members type_error kvs
                 (field, (case saved of None \<Rightarrow> Some (type_error v) | Some e \<Rightarrow> Some e)))
      else assign_members type_error kvs (field, saved))"

definition Decode_openIDConfig :: "(json \<Rightarrow> go_error) \<Rightarrow> body \<Rightarrow> go_error + string" where
  "Decode_openIDConfig type_error b =
     (case b of
        Malformed err \<Rightarrow> Inl err
      | JSONValue v \<Rightarrow>
          (case v of
             JNull \<Rightarrow> Inr []
           | JObject kvs \<Rightarrow>
               (case assign_members type_error kvs ([], None) of
                  (field, None) \<Rightarrow> Inr field
                | (field, Some err) \<Rightarrow> Inl err)
           | _ \<Rightarrow> Inl (type_error v)))"

definition GetJwksURI ::
  "(string \<Rightarrow> go_error + Response) \<Rightarrow> (json \<Rightarrow> go_error) \<Rightarrow> string \<Rightarrow> string \<times> go_error option" where
  "GetJwksURI http_Get type_error issuer =
     (case http_Get (issuer @ ''/.well-known/openid-configuration'') of
        Inl err \<Rightarrow> ([], Some err)
      | Inr resp \<Rightarrow>
          if StatusCode resp \<noteq> StatusOK
          then ([], Some (ErrorString (''failed to get openid-configuration: '' @ Status resp)))
          else
            (case Decode_openIDConfig type_error (Body resp) of
               Inl err \<Rightarrow> ([], Some err)
             | Inr JwksURI \<Rightarrow> (JwksURI, None)))"

section \<open>Package authkeeper: the authorization arbiter\<close>

text \<open>
  The package \<open>dbus\<close> with the type \<open>DbusAuth\<close> is outside the sources covered here. The
  arbiter only calls three of its methods, so they are parameters: \<open>'d\<close> is the state
  behind the \<open>*DbusAuth\<close> pointer, and each method returns the state it leaves with its
  results. \<open>Deauthorize\<close> returns a \<open>*godbus.Error\<close>.
\<close>

datatype godbus_Error = DBusError string "string list"

record 'd LocalAuthority =
  dbus_IsReadAuthorized :: "'d \<Rightarrow> 'd \<times> bool \<times> go_error option"
  dbus_IsWriteAuthorized :: "'d \<Rightarrow> string \<Rightarrow> 'd \<times> bool \<times> go_error option"
  dbus_Deauthorize :: "'d \<Rightarrow> 'd \<times> godbus_Error option"

text \<open>
  The struct \<open>AuthKeeper\<close>. The two backends are pointers, \<open>None\<close> when nil. The
  unexported field \<open>context\<close> is only written by \<open>NewOauth\<close>; \<open>has_context\<close> says whether
  it is set.
\<close>

record 'd AuthKeeper =
  Dbus :: "'d option"
  Oauth2 :: "Oauth2Auth option"
  Timeout :: "32 word"
  ReadAllowed :: bool
  WriteAllowed :: bool
  has_context :: bool

datatype AuthMode = noauth | oauth2 | polkit

definition Mode :: "'d AuthKeeper \<Rightarrow> AuthMode" where
  "Mode a =
     (if Dbus a \<noteq> None \<and> Oauth2 a \<noteq> None then noauth
      else if Dbus a \<noteq> None then polkit
      else if Oauth2 a \<noteq> None then oauth2
      else noauth)"

text \<open>The warning that \<open>Mode\<close> logs, as the list of messages of one call.\<close>

definition Mode_warnings :: "'d AuthKeeper \<Rightarrow> string list" where
  "Mode_warnings a =
     (if Dbus a \<noteq> None \<and> Oauth2 a \<noteq> None
      then [''ouath2 and dbus/polkit authentication defined''] else [])"

definition NewNoAuth :: "'d AuthKeeper \<times> go_error option" where
  "NewNoAuth =
     (\<lparr>Dbus = None, Oauth2 = None, Timeout = 0, ReadAllowed = True, WriteAllowed = True,
       has_context = False\<rparr>, None)"

text \<open>
  The checks return the arbiter, whose local authority may have changed state, and the
  \<open>(bool, error)\<close> of the call. A method called through a nil backend pointer panics.
\<close>

definition IsReadAuthorized ::
  "'d LocalAuthority \<Rightarrow> 'd AuthKeeper \<Rightarrow> 'd AuthKeeper \<times> (bool \<times> go_error option) outcome" where
  "IsReadAuthorized D a =
     (case Mode a of
        oauth2 \<Rightarrow>
          (case Oauth2 a of
             None \<Rightarrow> (a, Panics)
           | Some v \<Rightarrow> (a, Returns (Oauth2Auth_IsReadAuthorized v)))
      | polkit \<Rightarrow>
          (case Dbus a of
             None \<Rightarrow> (a, Panics)
           | Some d \<Rightarrow>
               (case dbus_IsReadAuthorized D d of
                  (d', r) \<Rightarrow> (a\<lparr>Dbus := Some d'\<rparr>, Returns r)))
      | noauth \<Rightarrow> (a, Returns (ReadAllowed a, None)))"

definition IsWriteAuthorized ::
  "'d LocalAuthority \<Rightarrow> 'd AuthKeeper \<Rightarrow> string \<Rightarrow>
   'd AuthKeeper \<times> (bool \<times> go_error option) outcome" where
  "IsWriteAuthorized D a systemdPermission =
     (case Mode a of
        oauth2 \<Rightarrow>
          (case Oauth2 a of
             None \<Rightarrow> (a, Panics)
           | Some v \<Rightarrow> (a, Returns (Oauth2Auth_IsWriteAuthorized v)))
      | polkit \<Rightarrow>
          (case Dbus a of
             None \<Rightarrow> (a, Panics)
           | Some d \<Rightarrow>
               (case dbus_IsWriteAuthorized D d [] of
                  (d', r) \<Rightarrow> (a\<lparr>Dbus := Some d'\<rparr>, Returns r)))
      | noauth \<Rightarrow> (a, Returns (WriteAllowed a, None)))"

definition Deauthorize ::
  "'d LocalAuthority \<Rightarrow> 'd AuthKeeper \<Rightarrow> 'd AuthKeeper \<times> godbus_Error option" where
  "Deauthorize D a =
     (case Dbus a of
        None \<Rightarrow> (a, None)
      | Some d \<Rightarrow>
          (case dbus_Deauthorize D d of (d', err) \<Rightarrow> (a\<lparr>Dbus := Some d'\<rparr>, err)))"

section \<open>Package systemd: changing the state of a unit\<close>

text \<open>
  Modelled from the spec: \<open>Connection.ChangeUnitState\<close> (package \<open>internal/pkg/systemd\<close>) is
  outside the sources covered here; only its test is covered. The definitions of this section
  follow the specification of the unit-operation tracker: the caller must hold write
  authorization before anything is sent to the service manager; each action of the fixed
  set maps to one primitive, with the request mode \<open>replace\<close> for the four asynchronous
  ones; any other action is rejected with an unsupported-action error before any backend
  call; an asynchronous job either reports within the timeout (success, or a failure
  carrying the reported result) or is still running and stays pending; enabling and
  disabling return the list of changes at once.
\<close>

datatype backend_call =
    StartUnit string string
  | StopUnit string string
  | RestartUnit string string
  | ReloadOrRestartUnit string string
  | EnableUnitFiles "string list"
  | DisableUnitFiles "string list"

datatype file_change = FileChange string string string

datatype job_report = JobSucceeded | JobFailed string

text \<open>The answers of the service manager (in the test, the mock connection).\<close>

record backend =
  job_of :: "backend_call \<Rightarrow> go_error + nat"
  job_report_of :: "nat \<Rightarrow> job_report option"
  changes_of :: "backend_call \<Rightarrow> go_error + file_change list"

datatype change_error =
    Unauthorized "go_error option"
  | UnsupportedAction string
  | BackendTransportError go_error
  | OperationResultFailure string

datatype change_result = Completed | StillRunning | Changes "file_change list"

record 'd Connection =
  auth :: "'d AuthKeeper"
  pending :: "nat option"

definition fixed_actions :: "string list" where
  "fixed_actions =
     [''start'', ''stop'', ''restart'', ''restart_force'', ''reload'', ''enable'', ''disable'']"

definition primitive_of :: "string \<Rightarrow> string \<Rightarrow> backend_call option" where
  "primitive_of name action =
     (if action = ''start'' then Some (StartUnit name ''replace'')
      else if action = ''stop'' then Some (StopUnit name ''replace'')
      else if action = ''restart'' then Some (RestartUnit name ''replace'')
      else if action = ''restart_force'' then Some (RestartUnit name ''replace'')
      else if action = ''reload'' then Some (ReloadOrRestartUnit name ''replace'')
      else if action = ''enable'' then Some (EnableUnitFiles [name])
      else if action = ''disable'' then Some (DisableUnitFiles [name])
      else None)"

fun synchronous :: "backend_call \<Rightarrow> bool" where
  "synchronous (EnableUnitFiles files) = True"
| "synchronous (DisableUnitFiles files) = True"
| "synchronous call = False"

text \<open>The result carries the connection, the backend primitives invoked, in order, and
  what the caller gets.\<close>

definition dispatch ::
  "backend \<Rightarrow> 'd Connection \<Rightarrow> backend_call \<Rightarrow>
   'd Connection \<times> backend_call list \<times> (change_error + change_result) outcome" where
  "dispatch B conn call =
     (if synchronous call then
        (case changes_of B call of
           Inl err \<Rightarrow> (conn, [call], Returns (Inl (BackendTransportError err)))
         | Inr changes \<Rightarrow> (conn, [call], Returns (Inr (Changes changes))))
      else
        (case job_of B call of
           Inl err \<Rightarrow> (conn, [call], Returns (Inl (BackendTransportError err)))
         | Inr job \<Rightarrow>
             (case job_report_of B job of
                None \<Rightarrow> (conn\<lparr>pending := Some job\<rparr>, [call], Returns (Inr StillRunning))
              | Some JobSucceeded \<Rightarrow> (conn, [call], Returns (Inr Completed))
              | Some (JobFailed res) \<Rightarrow>
                  (conn, [call], Returns (Inl (OperationResultFailure res))))))"

definition ChangeUnitState ::
  "'d LocalAuthority \<Rightarrow> backend \<Rightarrow> 'd Connection \<Rightarrow> string \<Rightarrow> string \<Rightarrow>
   'd Connection \<times> backend_call list \<times> (change_error + change_result) outcome" where
  "ChangeUnitState D B conn name action =
     (case IsWriteAuthorized D (auth conn) [] of
        (a, Panics) \<Rightarrow> (conn\<lparr>auth := a\<rparr>, [], Panics)
      | (a, Returns (allowed, err)) \<Rightarrow>
          if err \<noteq> None then (conn\<lparr>auth := a\<rparr>, [], Returns (Inl (Unauthorized err)))
          else if allowed then
            (case primitive_of name action of
               None \<Rightarrow> (conn\<lparr>auth := a\<rparr>, [], Returns (Inl (UnsupportedAction action)))
             | Some call \<Rightarrow> dispatch B (conn\<lparr>auth := a\<rparr>) call)
          else (conn\<lparr>auth := a\<rparr>, [], Returns (Inl (Unauthorized None))))"

section \<open>Example values\<close>

text \<open>A local authority whose state is whether an interactive grant is held: it allows
  reads and writes while the grant is held, and revocation drops the grant.\<close>

definition grant_authority :: "bool LocalAuthority" where
  "grant_authority =
     \<lparr>dbus_IsReadAuthorized = (\<lambda>g. (g, g, None)),
      dbus_IsWriteAuthorized = (\<lambda>g label. (g, g, None)),
      dbus_Deauthorize = (\<lambda>g. (False, None))\<rparr>"

text \<open>A key set with one key, and a verifier bound to it holding the given scopes.\<close>

definition one_key :: Keyfunc where
  "one_key = (\<lambda>token. Inr ''key-1'')"

definition verifier_with :: "string list \<Rightarrow> Oauth2Auth" where
  "verifier_with ss =
     \<lparr>KeyFunc = one_key, JwksUri = ''https://example.com/jwks'', claims = Map.empty,
      scopes = ss\<rparr>"

definition keeper :: "bool option \<Rightarrow> Oauth2Auth option \<Rightarrow> bool \<Rightarrow> bool \<Rightarrow> bool AuthKeeper" where
  "keeper d v r w =
     \<lparr>Dbus = d, Oauth2 = v, Timeout = 5, ReadAllowed = r, WriteAllowed = w,
      has_context = False\<rparr>"

section \<open>The arbiter: resolution of the mode and the disabled mode\<close>

text \<open>
  C1. For every arbiter, \<open>Mode\<close> is determined by which of the two backend pointers are
  non-nil and by nothing else: \<open>Dbus\<close> alone gives \<open>polkit\<close>, \<open>Oauth2\<close> alone gives
  \<open>oauth2\<close>, and neither or both give \<open>noauth\<close>.
\<close>

theorem Mode_resolution:
  "Mode a =
     (case (Dbus a, Oauth2 a) of
        (Some d, None) \<Rightarrow> polkit
      | (None, Some v) \<Rightarrow> oauth2
      | (None, None) \<Rightarrow> noauth
      | (Some d, Some v) \<Rightarrow> noauth)"
  by (simp add: Mode_def split: option.splits)

lemma Mode_warnings_both:
  "Mode_warnings a \<noteq> [] \<longleftrightarrow> Dbus a \<noteq> None \<and> Oauth2 a \<noteq> None"
  by (simp add: Mode_warnings_def)

text \<open>
  C3. Whenever \<open>Mode\<close> resolves to \<open>noauth\<close>, the read check returns the flag
  \<open>ReadAllowed\<close> and the write check the flag \<open>WriteAllowed\<close>, both with a nil error and
  with the arbiter unchanged, whatever the flags are.
\<close>

theorem noauth_returns_flags:
  assumes "Mode a = noauth"
  shows "IsReadAuthorized D a = (a, Returns (ReadAllowed a, None)) \<and>
         IsWriteAuthorized D a systemdPermission = (a, Returns (WriteAllowed a, None))"
  using assms by (simp add: IsReadAuthorized_def IsWriteAuthorized_def)

theorem noauth_returns_flags_witness:
  "Mode (keeper (Some True) (Some (verifier_with [''mcp:read''])) False True) = noauth \<and>
   IsReadAuthorized grant_authority
       (keeper (Some True) (Some (verifier_with [''mcp:read''])) False True)
     = (keeper (Some True) (Some (verifier_with [''mcp:read''])) False True,
        Returns (False, None)) \<and>
   IsWriteAuthorized grant_authority
       (keeper (Some True) (Some (verifier_with [''mcp:read''])) False True) ''manage-units''
     = (keeper (Some True) (Some (verifier_with [''mcp:read''])) False True,
        Returns (True, None))"
proof -
  have m: "Mode (keeper (Some True) (Some (verifier_with [''mcp:read''])) False True) = noauth"
    by (simp add: Mode_def keeper_def)
  show ?thesis
    using m noauth_returns_flags [OF m, of grant_authority "''manage-units''"]
    by (simp add: keeper_def)
qed

lemma NewNoAuth_allows:
  "Mode (fst NewNoAuth) = noauth \<and> ReadAllowed (fst NewNoAuth) \<and>
   WriteAllowed (fst NewNoAuth) \<and> snd NewNoAuth = None"
  by (simp add: NewNoAuth_def Mode_def)

section \<open>The scopes announced by the server\<close>

text \<open>
  C8. \<open>systemdScopes\<close> is the two-element list holding the read scope twice; the write
  scope, which is in \<open>ScopesSupported\<close>, is not in it.
\<close>

theorem systemdScopes_value:
  "systemdScopes = [''mcp:read'', ''mcp:read''] \<and> length systemdScopes = 2 \<and>
   ''mcp:write'' \<notin> set systemdScopes \<and> ''mcp:write'' \<in> set ScopesSupported"
  by (simp add: systemdScopes_def ScopesSupported_def)

end
